theory Spec2Isabelle
  imports Main
begin

section \<open>The virapy package initialiser: lazy loading of the native extension\<close>

text \<open>
  This theory embeds \<^verbatim>\<open>source/virapy/packaging/__init__.py\<close>: the module-level
  initialisation, the loader \<^verbatim>\<open>_load_extension\<close> and the class \<^verbatim>\<open>_LazySubmodule\<close>.

  Python objects are references (\<open>objref\<close>); a value that may be Python's \<^verbatim>\<open>None\<close> is an
  \<open>objref option\<close> with \<open>None\<close> for \<^verbatim>\<open>None\<close>.  An exception is a value carrying the name
  of its class and its string form \<^verbatim>\<open>str(e)\<close>: \<open>Exn\<close> for an instance of \<^verbatim>\<open>Exception\<close>,
  \<open>BaseExn\<close> for an instance of \<^verbatim>\<open>BaseException\<close> that is not one of \<^verbatim>\<open>Exception\<close> (such
  as \<^verbatim>\<open>KeyboardInterrupt\<close> and \<^verbatim>\<open>SystemExit\<close>).  The handler \<^verbatim>\<open>except Exception as e\<close> of the
  loader catches the first kind only.  A function that may raise returns \<open>exn + 'a\<close>, with
  \<open>Inl\<close> for the raise.
\<close>

subsection \<open>Values, exceptions, events\<close>

type_synonym objref = nat
type_synonym pyval = "objref option"
type_synonym registry = "string \<rightharpoonup> objref"

datatype exn =
    Exn (exn_type: string) (exn_str: string)
  | BaseExn (exn_type: string) (exn_str: string)

fun is_exception :: "exn \<Rightarrow> bool" where
  "is_exception (Exn t s) = True"
| "is_exception (BaseExn t s) = False"

abbreviation ImportError :: "string \<Rightarrow> exn" where
  "ImportError msg \<equiv> Exn ''ImportError'' msg"

abbreviation KeyError :: "string \<Rightarrow> exn" where
  "KeyError msg \<equiv> Exn ''KeyError'' msg"

text \<open>
  The log of calls that leave the wrapper, kept as a ghost field of the state: the
  existence check of the resolved path (\<^verbatim>\<open>os.path.exists\<close>), the execution of the
  extension module (\<^verbatim>\<open>spec.loader.exec_module\<close>) and the evaluation of
  \<^verbatim>\<open>self._submodule._activate()\<close>, tagged with the name of the proxy that made it.
  No function of the model reads the log.
\<close>

datatype event = Located string | NativeLoad string | Activation string

fun is_native_load :: "event \<Rightarrow> bool" where
  "is_native_load (NativeLoad f) = True"
| "is_native_load _ = False"

fun is_activation :: "event \<Rightarrow> bool" where
  "is_activation (Activation n) = True"
| "is_activation _ = False"

record module_spec =
  spec_name :: string
  spec_origin :: string
  spec_loader :: "objref option"

subsection \<open>The host: platform, library functions and the native collaborators\<close>

text \<open>
  What the file takes from outside is a parameter: \<^verbatim>\<open>platform.system()\<close>, the package
  directory \<^verbatim>\<open>_package_dir\<close>, the module's \<^verbatim>\<open>__name__\<close>, \<^verbatim>\<open>os.path.join\<close>,
  \<^verbatim>\<open>os.pathsep\<close>, \<^verbatim>\<open>hasattr(os, 'add_dll_directory')\<close>, \<^verbatim>\<open>repr\<close> of a string, the three
  functions of \<^verbatim>\<open>importlib\<close>, and attribute lookup, \<^verbatim>\<open>dir\<close> and \<^verbatim>\<open>_activate()\<close> on the
  objects of the extension.  The type \<open>'n\<close> is the state of the native side; creating and
  executing a module may also change the module registry.  \<open>builtin_attrs\<close> are the
  attribute names that the Python runtime gives to every instance of a class written
  without base classes (those of \<^verbatim>\<open>object\<close>, such as \<^verbatim>\<open>__class__\<close>, and \<^verbatim>\<open>__dict__\<close>,
  \<^verbatim>\<open>__module__\<close>, \<^verbatim>\<open>__weakref__\<close>).
\<close>

record 'n host =
  platform_system :: string
  package_dir :: string
  mod_name :: string
  path_join :: "string \<Rightarrow> string \<Rightarrow> string"
  pathsep :: string
  has_add_dll_directory :: bool
  py_repr :: "string \<Rightarrow> string"
  spec_from_file_location :: "string \<Rightarrow> string \<Rightarrow> 'n \<Rightarrow> exn + module_spec option"
  module_from_spec :: "module_spec \<Rightarrow> registry \<Rightarrow> 'n \<Rightarrow> (exn + objref) \<times> registry \<times> 'n"
  exec_module :: "module_spec \<Rightarrow> objref \<Rightarrow> registry \<Rightarrow> 'n \<Rightarrow> (exn + unit) \<times> registry \<times> 'n"
  obj_getattr :: "pyval \<Rightarrow> string \<Rightarrow> 'n \<Rightarrow> exn + pyval"
  obj_dir :: "pyval \<Rightarrow> 'n \<Rightarrow> exn + string list"
  call_activate :: "pyval \<Rightarrow> 'n \<Rightarrow> (exn + unit) \<times> 'n"
  builtin_attrs :: "string set"

subsection \<open>The process state\<close>

text \<open>
  \<open>sys_modules\<close> is \<^verbatim>\<open>sys.modules\<close>, \<open>extension_module\<close> the global
  \<^verbatim>\<open>_extension_module\<close>, \<open>files\<close> the paths for which \<^verbatim>\<open>os.path.exists\<close> holds,
  \<open>environ\<close> is \<^verbatim>\<open>os.environ\<close>, and \<open>dll_directories\<close> the directories registered with
  \<^verbatim>\<open>os.add_dll_directory\<close>.
\<close>

record 'n world =
  sys_modules :: registry
  extension_module :: "objref option"
  files :: "string set"
  environ :: "string \<rightharpoonup> string"
  dll_directories :: "string list"
  native :: 'n
  events :: "event list"

definition log_event :: "event \<Rightarrow> 'n world \<Rightarrow> 'n world" where
  "log_event e w = w\<lparr>events := events w @ [e]\<rparr>"

subsection \<open>Resolving the extension file (lines 37--40)\<close>

definition extension_file :: "'n host \<Rightarrow> string" where
  "extension_file h =
     (if platform_system h = ''Windows''
      then path_join h (package_dir h) ''virapy.pyd''
      else path_join h (package_dir h) ''virapy.so'')"

subsection \<open>The loader \<^verbatim>\<open>_load_extension\<close>\<close>

text \<open>
  The body of the inner \<^verbatim>\<open>try\<close> (lines 59--66): create the spec under the wrapper's
  own name, create the module, execute it, store it in the cache.
\<close>

definition import_extension ::
  "'n host \<Rightarrow> string \<Rightarrow> 'n world \<Rightarrow> (exn + objref) \<times> 'n world" where
  "import_extension h ef w =
     (case spec_from_file_location h (mod_name h) ef (native w) of
        Inl e \<Rightarrow> (Inl e, w)
      | Inr None \<Rightarrow> (Inl (ImportError (''Could not create spec for '' @ ef)), w)
      | Inr (Some sp) \<Rightarrow>
          if spec_loader sp = None
          then (Inl (ImportError (''Could not create spec for '' @ ef)), w)
          else
            (case module_from_spec h sp (sys_modules w) (native w) of
               (Inl e, reg, n) \<Rightarrow> (Inl e, w\<lparr>sys_modules := reg, native := n\<rparr>)
             | (Inr m, reg, n) \<Rightarrow>
                 (case exec_module h sp m reg n of
                    (Inl e, reg', n') \<Rightarrow>
                      (Inl e, log_event (NativeLoad ef) (w\<lparr>sys_modules := reg', native := n'\<rparr>))
                  | (Inr u, reg', n') \<Rightarrow>
                      (Inr m, log_event (NativeLoad ef)
                         (w\<lparr>sys_modules := reg', native := n', extension_module := Some m\<rparr>)))))"

text \<open>
  The body of the outer \<^verbatim>\<open>try\<close> (lines 36--72): the existence check, the lookup of
  \<^verbatim>\<open>sys.modules[__name__]\<close> (a \<^verbatim>\<open>KeyError\<close> when the name is not bound), the swap to
  the temporary name, the import, and the \<^verbatim>\<open>finally\<close> block, which runs on both
  outcomes of the import.  The statement \<^verbatim>\<open>import importlib.util\<close> of line 46 is not
  modelled: where the standard library is not loaded yet it adds registry entries under
  the library's own names, which are neither the wrapper's name nor the alias.
\<close>

definition temp_name :: "'n host \<Rightarrow> string" where
  "temp_name h = mod_name h @ ''_temp''"

definition load_attempt :: "'n host \<Rightarrow> 'n world \<Rightarrow> (exn + objref) \<times> 'n world" where
  "load_attempt h w =
     (let ef = extension_file h;
          w0 = log_event (Located ef) w
      in if ef \<notin> files w0
         then (Inl (ImportError (''Extension file not found: '' @ ef)), w0)
         else
           (case sys_modules w0 (mod_name h) of
              None \<Rightarrow> (Inl (KeyError (py_repr h (mod_name h))), w0)
            | Some this_module \<Rightarrow>
                let w1 = w0\<lparr>sys_modules := (sys_modules w0)(temp_name h \<mapsto> this_module)\<rparr>;
                    w2 = w1\<lparr>sys_modules := (sys_modules w1)(mod_name h := None)\<rparr>;
                    (r, w3) = import_extension h ef w2;
                    w4 = w3\<lparr>sys_modules := (sys_modules w3)(mod_name h \<mapsto> this_module)\<rparr>;
                    w5 = w4\<lparr>sys_modules := (sys_modules w4)(temp_name h := None)\<rparr>
                in (r, w5)))"

text \<open>
  The whole function (lines 28--75): the cached handle when there is one, otherwise the
  attempt.  The handler of line 74 catches an instance of \<^verbatim>\<open>Exception\<close> and raises an
  \<^verbatim>\<open>ImportError\<close> built from its string; any other exception leaves the function as it
  is.
\<close>

definition load_extension :: "'n host \<Rightarrow> 'n world \<Rightarrow> (exn + objref) \<times> 'n world" where
  "load_extension h w =
     (case extension_module w of
        Some m \<Rightarrow> (Inr m, w)
      | None \<Rightarrow>
          (case load_attempt h w of
             (Inl e, w') \<Rightarrow>
               if is_exception e
               then (Inl (ImportError (''Failed to import virapy extension: '' @ exn_str e)), w')
               else (Inl e, w')
           | (Inr m, w') \<Rightarrow> (Inr m, w')))"

subsection \<open>The class \<^verbatim>\<open>_LazySubmodule\<close>\<close>

record LazySubmodule =
  name :: string
  submodule :: pyval
  activated :: bool

definition LazySubmodule_init :: "string \<Rightarrow> LazySubmodule" where
  "LazySubmodule_init nm = \<lparr>name = nm, submodule = None, activated = False\<rparr>"

definition ensure_activated ::
  "'n host \<Rightarrow> LazySubmodule \<Rightarrow> 'n world \<Rightarrow> (exn + unit) \<times> LazySubmodule \<times> 'n world" where
  "ensure_activated h p w =
     (if \<not> activated p then
        (case load_extension h w of
           (Inl e, w1) \<Rightarrow> (Inl e, p, w1)
         | (Inr extension, w1) \<Rightarrow>
             (case obj_getattr h (Some extension) (name p) (native w1) of
                Inl e \<Rightarrow> (Inl e, p, w1)
              | Inr sub \<Rightarrow>
                  let p1 = p\<lparr>submodule := sub\<rparr>;
                      w2 = log_event (Activation (name p)) w1
                  in (case call_activate h sub (native w2) of
                        (Inl e, n) \<Rightarrow> (Inl e, p1, w2\<lparr>native := n\<rparr>)
                      | (Inr u, n) \<Rightarrow> (Inr (), p1\<lparr>activated := True\<rparr>, w2\<lparr>native := n\<rparr>))))
      else (Inr (), p, w))"

text \<open>The methods \<^verbatim>\<open>__getattr__\<close> (lines 93--95) and \<^verbatim>\<open>__dir__\<close> (lines 97--99).\<close>

definition LazySubmodule_getattr ::
  "'n host \<Rightarrow> LazySubmodule \<Rightarrow> string \<Rightarrow> 'n world \<Rightarrow> (exn + pyval) \<times> LazySubmodule \<times> 'n world" where
  "LazySubmodule_getattr h p attr w =
     (case ensure_activated h p w of
        (Inl e, p', w') \<Rightarrow> (Inl e, p', w')
      | (Inr u, p', w') \<Rightarrow> (obj_getattr h (submodule p') attr (native w'), p', w'))"

definition LazySubmodule_dir ::
  "'n host \<Rightarrow> LazySubmodule \<Rightarrow> 'n world \<Rightarrow> (exn + string list) \<times> LazySubmodule \<times> 'n world" where
  "LazySubmodule_dir h p w =
     (case ensure_activated h p w of
        (Inl e, p', w') \<Rightarrow> (Inl e, p', w')
      | (Inr u, p', w') \<Rightarrow> (obj_dir h (submodule p') (native w'), p', w'))"

text \<open>
  Reading an attribute of a proxy, \<^verbatim>\<open>proxy.attr\<close>.  Python looks the name up on the object
  and its class first and calls \<^verbatim>\<open>__getattr__\<close> only when that finds nothing.  The object
  has the three fields set by \<^verbatim>\<open>__init__\<close>; the class body gives the docstring and the four
  methods; the rest comes from the runtime (\<open>builtin_attrs\<close>).  The value read is an object
  (of the extension, or \<^verbatim>\<open>None\<close>), a string, a truth value, or a member of the class,
  given by its name.
\<close>

datatype attr_value = Obj pyval | Str string | Flag bool | Member string

definition own_attribute :: "'n host \<Rightarrow> LazySubmodule \<Rightarrow> string \<Rightarrow> attr_value option" where
  "own_attribute h p attr =
     (if attr = ''name'' then Some (Str (name p))
      else if attr = ''_submodule'' then Some (Obj (submodule p))
      else if attr = ''_activated'' then Some (Flag (activated p))
      else if attr = ''__doc__'' then Some (Str ''Lazy loader for submodules'')
      else if attr \<in> {''__init__'', ''_ensure_activated'', ''__getattr__'', ''__dir__''}
                \<union> builtin_attrs h
      then Some (Member attr)
      else None)"

definition LazySubmodule_access ::
  "'n host \<Rightarrow> LazySubmodule \<Rightarrow> string \<Rightarrow> 'n world \<Rightarrow>
     (exn + attr_value) \<times> LazySubmodule \<times> 'n world" where
  "LazySubmodule_access h p attr w =
     (case own_attribute h p attr of
        Some x \<Rightarrow> (Inr x, p, w)
      | None \<Rightarrow>
          (case LazySubmodule_getattr h p attr w of
             (Inl e, p', w') \<Rightarrow> (Inl e, p', w')
           | (Inr x, p', w') \<Rightarrow> (Inr (Obj x), p', w')))"

text \<open>What the stored submodule gives for an attribute.\<close>

definition forwarded :: "'n host \<Rightarrow> LazySubmodule \<Rightarrow> string \<Rightarrow> 'n world \<Rightarrow> exn + attr_value" where
  "forwarded h p attr w =
     (case obj_getattr h (submodule p) attr (native w) of
        Inl e \<Rightarrow> Inl e
      | Inr x \<Rightarrow> Inr (Obj x))"

subsection \<open>Module initialisation (lines 16--26 and 102--104)\<close>

record virapy_module =
  V1FF :: LazySubmodule
  V8FF :: LazySubmodule
  RGBFF :: LazySubmodule

definition register_dll_path :: "'n host \<Rightarrow> 'n world \<Rightarrow> 'n world" where
  "register_dll_path h w =
     (if platform_system h = ''Windows'' then
        (if has_add_dll_directory h
         then w\<lparr>dll_directories := dll_directories w @ [package_dir h]\<rparr>
         else w\<lparr>environ := (environ w)(''PATH'' \<mapsto>
                package_dir h @ pathsep h @
                (case environ w ''PATH'' of None \<Rightarrow> '''' | Some v \<Rightarrow> v))\<rparr>)
      else w)"

definition virapy_init :: "'n host \<Rightarrow> 'n world \<Rightarrow> virapy_module \<times> 'n world" where
  "virapy_init h w =
     (let w1 = register_dll_path h w;
          w2 = w1\<lparr>extension_module := None\<rparr>
      in (\<lparr>V1FF = LazySubmodule_init ''V1FF'',
           V8FF = LazySubmodule_init ''V8FF'',
           RGBFF = LazySubmodule_init ''RGBFF''\<rparr>, w2))"

subsection \<open>Clients: calls in sequence\<close>

text \<open>\<open>load_n h k w\<close> calls the loader \<open>k\<close> times in sequence and collects the results.\<close>

fun load_n :: "'n host \<Rightarrow> nat \<Rightarrow> 'n world \<Rightarrow> (exn + objref) list \<times> 'n world" where
  "load_n h 0 w = ([], w)"
| "load_n h (Suc k) w =
     (let (r, w1) = load_extension h w;
          (rs, w2) = load_n h k w1
      in (r # rs, w2))"

text \<open>\<open>proxy_uses h p attrs w\<close> reads the attributes \<open>attrs\<close> of one proxy in sequence.\<close>

fun proxy_uses ::
  "'n host \<Rightarrow> LazySubmodule \<Rightarrow> string list \<Rightarrow> 'n world \<Rightarrow>
     (exn + attr_value) list \<times> LazySubmodule \<times> 'n world" where
  "proxy_uses h p [] w = ([], p, w)"
| "proxy_uses h p (a # as) w =
     (let (r, p1, w1) = LazySubmodule_access h p a w;
          (rs, p2, w2) = proxy_uses h p1 as w1
      in (r # rs, p2, w2))"

subsection \<open>A concrete host\<close>

text \<open>
  A Linux host on which the theorems are evaluated.  The extension is the object 100 with
  the submodules 1, 2 and 3 under the names V1FF, V8FF and RGBFF, each with the attributes
  \<^verbatim>\<open>Camera\<close> and \<^verbatim>\<open>name\<close>; executing the extension registers it under its own name; the
  native state is the submodule that is active, and \<^verbatim>\<open>_activate()\<close> raises when another
  one is.
\<close>

definition example_getattr :: "pyval \<Rightarrow> string \<Rightarrow> objref option \<Rightarrow> exn + pyval" where
  "example_getattr obj attr n =
     (if obj = Some 100 \<and> attr = ''V1FF'' then Inr (Some 1)
      else if obj = Some 100 \<and> attr = ''V8FF'' then Inr (Some 2)
      else if obj = Some 100 \<and> attr = ''RGBFF'' then Inr (Some 3)
      else if obj \<in> {Some 1, Some 2, Some 3} \<and> attr = ''Camera'' then Inr (Some 50)
      else if obj \<in> {Some 1, Some 2, Some 3} \<and> attr = ''name'' then Inr (Some 60)
      else Inl (Exn ''AttributeError'' (''no attribute '' @ attr)))"

definition example_activate :: "pyval \<Rightarrow> objref option \<Rightarrow> (exn + unit) \<times> objref option" where
  "example_activate obj n =
     (case obj of
        None \<Rightarrow> (Inl (Exn ''AttributeError'' ''no attribute _activate''), n)
      | Some k \<Rightarrow>
          if n = None \<or> n = Some k then (Inr (), Some k)
          else (Inl (Exn ''RuntimeError'' ''another submodule is already active''), n))"

definition example_spec :: module_spec where
  "example_spec =
     \<lparr>spec_name = ''virapy'', spec_origin = ''/site/virapy/virapy.so'', spec_loader = Some 7\<rparr>"

definition example_host :: "(objref option) host" where
  "example_host =
     \<lparr>platform_system = ''Linux'',
      package_dir = ''/site/virapy'',
      mod_name = ''virapy'',
      path_join = (\<lambda>a b. a @ ''/'' @ b),
      pathsep = '':'',
      has_add_dll_directory = False,
      py_repr = (\<lambda>s. ''<'' @ s @ ''>''),
      spec_from_file_location =
        (\<lambda>nm f n. Inr (Some \<lparr>spec_name = nm, spec_origin = f, spec_loader = Some 7\<rparr>)),
      module_from_spec = (\<lambda>sp reg n. (Inr 100, reg, n)),
      exec_module = (\<lambda>sp m reg n. (Inr (), reg(spec_name sp \<mapsto> m), n)),
      obj_getattr = example_getattr,
      obj_dir = (\<lambda>obj n. Inr [''Camera'']),
      call_activate = example_activate,
      builtin_attrs = {''__class__'', ''__dict__'', ''__module__'', ''__weakref__''}\<rparr>"

definition example_world :: "(objref option) world" where
  "example_world =
     \<lparr>sys_modules = [''virapy'' \<mapsto> 42],
      extension_module = None,
      files = {''/site/virapy/virapy.so''},
      environ = [''PATH'' \<mapsto> ''/usr/bin''],
      dll_directories = [],
      native = None,
      events = []\<rparr>"

definition example_loaded_world :: "(objref option) world" where
  "example_loaded_world =
     example_world\<lparr>extension_module := Some 100,
       events := [Located ''/site/virapy/virapy.so'', NativeLoad ''/site/virapy/virapy.so'']\<rparr>"

text \<open>The same process after the load, with the submodule V8FF (object 2) active.\<close>

definition example_busy_world :: "(objref option) world" where
  "example_busy_world = example_loaded_world\<lparr>native := Some 2\<rparr>"

text \<open>The proxy V1FF after its activation, and the process in which it is active.\<close>

definition example_active_proxy :: LazySubmodule where
  "example_active_proxy = \<lparr>name = ''V1FF'', submodule = Some 1, activated = True\<rparr>"

definition example_active_world :: "(objref option) world" where
  "example_active_world =
     example_world\<lparr>extension_module := Some 100, native := Some 1,
       events := [Located ''/site/virapy/virapy.so'', NativeLoad ''/site/virapy/virapy.so'',
                  Activation ''V1FF'']\<rparr>"

text \<open>
  A Windows host, with and without \<^verbatim>\<open>os.add_dll_directory\<close>; a host whose extension
  raises when it is executed; a host for which no spec can be created.
\<close>

definition example_windows_host :: "(objref option) host" where
  "example_windows_host =
     example_host\<lparr>platform_system := ''Windows'', package_dir := ''C:/site/virapy'',
       pathsep := '';'', has_add_dll_directory := True\<rparr>"

definition example_old_windows_host :: "(objref option) host" where
  "example_old_windows_host = example_windows_host\<lparr>has_add_dll_directory := False\<rparr>"

definition example_broken_host :: "(objref option) host" where
  "example_broken_host =
     example_host\<lparr>exec_module := (\<lambda>sp m reg n. (Inl (ImportError ''undefined symbol''), reg, n))\<rparr>"

definition example_specless_host :: "(objref option) host" where
  "example_specless_host = example_host\<lparr>spec_from_file_location := (\<lambda>nm f n. Inr None)\<rparr>"

text \<open>A host on which the execution of the extension is interrupted from the keyboard.\<close>

definition example_interrupted_host :: "(objref option) host" where
  "example_interrupted_host =
     example_host\<lparr>exec_module := (\<lambda>sp m reg n. (Inl (BaseExn ''KeyboardInterrupt'' ''''), reg, n))\<rparr>"

text \<open>
  A host whose native state is the number of times the extension module has been
  executed, and a process on it in which nothing has been loaded.
\<close>

definition counting_host :: "nat host" where
  "counting_host =
     \<lparr>platform_system = ''Linux'',
      package_dir = ''/site/virapy'',
      mod_name = ''virapy'',
      path_join = (\<lambda>a b. a @ ''/'' @ b),
      pathsep = '':'',
      has_add_dll_directory = False,
      py_repr = (\<lambda>s. ''<'' @ s @ ''>''),
      spec_from_file_location =
        (\<lambda>nm f n. Inr (Some \<lparr>spec_name = nm, spec_origin = f, spec_loader = Some 7\<rparr>)),
      module_from_spec = (\<lambda>sp reg n. (Inr 100, reg, n)),
      exec_module = (\<lambda>sp m reg n. (Inr (), reg(''_virapy_core'' \<mapsto> 101), Suc n)),
      obj_getattr = (\<lambda>obj attr n. Inl (Exn ''AttributeError'' (''no attribute '' @ attr))),
      obj_dir = (\<lambda>obj n. Inr []),
      call_activate = (\<lambda>obj n. (Inr (), n)),
      builtin_attrs = {''__class__'', ''__dict__'', ''__module__'', ''__weakref__''}\<rparr>"

definition counting_world :: "nat world" where
  "counting_world =
     \<lparr>sys_modules = [''virapy'' \<mapsto> 42],
      extension_module = None,
      files = {''/site/virapy/virapy.so''},
      environ = Map.empty,
      dll_directories = [],
      native = 0,
      events = []\<rparr>"

definition counting_loaded_world :: "nat world" where
  "counting_loaded_world =
     counting_world\<lparr>sys_modules := [''_virapy_core'' \<mapsto> 101, ''virapy'' \<mapsto> 42],
       extension_module := Some 100, native := 1,
       events := [Located ''/site/virapy/virapy.so'', NativeLoad ''/site/virapy/virapy.so'']\<rparr>"

lemmas example_defs = example_host_def example_world_def example_getattr_def example_activate_def
  example_spec_def extension_file_def temp_name_def load_attempt_def import_extension_def
  load_extension_def log_event_def Let_def

lemmas proxy_defs = ensure_activated_def LazySubmodule_getattr_def LazySubmodule_dir_def
  LazySubmodule_init_def example_loaded_world_def example_busy_world_def
  example_active_proxy_def example_active_world_def

lemmas host_defs = example_windows_host_def example_old_windows_host_def example_broken_host_def
  example_specless_host_def example_interrupted_host_def

lemmas counting_defs = counting_host_def counting_world_def counting_loaded_world_def
  extension_file_def temp_name_def load_attempt_def import_extension_def
  load_extension_def log_event_def Let_def

section \<open>Properties of the loader\<close>

subsection \<open>Auxiliary facts\<close>

lemma temp_name_neq [simp]: "temp_name h \<noteq> mod_name h" "mod_name h \<noteq> temp_name h"
  by (simp_all add: temp_name_def)

lemma load_attempt_registry:
  assumes "load_attempt h w = (r, w')"
  shows "sys_modules w' (mod_name h) = sys_modules w (mod_name h)"
    and "extension_file h \<in> files w \<and> mod_name h \<in> dom (sys_modules w)
           \<longrightarrow> temp_name h \<notin> dom (sys_modules w')"
    and "\<not> (extension_file h \<in> files w \<and> mod_name h \<in> dom (sys_modules w))
           \<longrightarrow> sys_modules w' = sys_modules w"
  using assms
  by (auto simp: load_attempt_def Let_def log_event_def split: if_splits option.splits prod.splits)

lemma load_extension_cached: "extension_module w = Some m \<Longrightarrow> load_extension h w = (Inr m, w)"
  by (simp add: load_extension_def)

lemma load_extension_uncached:
  "extension_module w = None \<Longrightarrow>
   load_extension h w =
     (case load_attempt h w of
        (Inl e, w') \<Rightarrow>
          if is_exception e
          then (Inl (ImportError (''Failed to import virapy extension: '' @ exn_str e)), w')
          else (Inl e, w')
      | (Inr m, w') \<Rightarrow> (Inr m, w'))"
  by (simp add: load_extension_def)

lemma import_extension_success:
  assumes "import_extension h ef w = (Inr m, w')"
  shows "extension_module w' = Some m \<and> events w' = events w @ [NativeLoad ef]"
  using assms
  by (auto simp: import_extension_def log_event_def
           split: sum.splits option.splits if_splits prod.splits)

lemma import_extension_failure:
  assumes "import_extension h ef w = (Inl e, w')"
  shows "extension_module w' = extension_module w"
  using assms
  by (auto simp: import_extension_def log_event_def
           split: sum.splits option.splits if_splits prod.splits)

lemma import_extension_no_activation:
  assumes "import_extension h ef w = (r, w')"
  shows "filter is_activation (events w') = filter is_activation (events w)"
  using assms
  by (auto simp: import_extension_def log_event_def
           split: sum.splits option.splits if_splits prod.splits)

lemma load_attempt_success:
  assumes "load_attempt h w = (Inr m, w')"
  shows "extension_module w' = Some m"
    and "events w' = events w @ [Located (extension_file h), NativeLoad (extension_file h)]"
  using assms
  by (auto simp: load_attempt_def Let_def log_event_def split: if_splits option.splits prod.splits
           dest!: import_extension_success)

lemma load_attempt_failure:
  assumes "load_attempt h w = (Inl e, w')"
  shows "extension_module w' = extension_module w"
  using assms
  by (auto simp: load_attempt_def Let_def log_event_def split: if_splits option.splits prod.splits
           dest!: import_extension_failure)

lemma load_attempt_no_activation:
  assumes "load_attempt h w = (r, w')"
  shows "filter is_activation (events w') = filter is_activation (events w)"
  using assms
  by (auto simp: load_attempt_def Let_def log_event_def split: if_splits option.splits prod.splits
           dest!: import_extension_no_activation)

lemma load_extension_no_activation:
  assumes "load_extension h w = (r, w')"
  shows "filter is_activation (events w') = filter is_activation (events w)"
  using assms
  by (auto simp: load_extension_def split: option.splits prod.splits sum.splits if_splits
           dest!: load_attempt_no_activation)

lemma load_extension_success:
  assumes "load_extension h w = (Inr m, w')"
  shows "extension_module w' = Some m"
  using assms
  by (auto simp: load_extension_def split: option.splits prod.splits sum.splits if_splits
           dest!: load_attempt_success(1))

lemma load_extension_first_success:
  assumes "extension_module w = None" and "load_extension h w = (Inr m, w')"
  shows "events w' = events w @ [Located (extension_file h), NativeLoad (extension_file h)]"
  using assms
  by (auto simp: load_extension_def split: option.splits prod.splits sum.splits if_splits
           dest!: load_attempt_success(2))

lemma load_n_cached:
  "extension_module w = Some m \<Longrightarrow> load_n h k w = (replicate k (Inr m), w)"
  by (induction k) (simp_all add: load_extension_cached)

subsection \<open>Identity restoration\<close>

text \<open>
  Claim C1.  Whatever a call of \<^verbatim>\<open>_load_extension\<close> returns or raises, and whatever the
  import machinery did to the registry in between, \<^verbatim>\<open>sys.modules[__name__]\<close> is bound
  after the call to what it was bound to before.  When the call made the swap (no cached
  handle, the file exists, the name is bound) the alias \<^verbatim>\<open>__name__ + "_temp"\<close> is absent
  afterwards; on every other path the registry of the model is not touched at all (up to
  the entries of the standard library that line 46 may add when the name is not bound).
  So a call never leaves an alias behind: an alias absent before the call is absent after
  it.
\<close>

theorem load_extension_restores_identity:
  "sys_modules (snd (load_extension h w)) (mod_name h) = sys_modules w (mod_name h)
   \<and> (extension_module w = None \<and> extension_file h \<in> files w \<and> mod_name h \<in> dom (sys_modules w)
        \<longrightarrow> temp_name h \<notin> dom (sys_modules (snd (load_extension h w))))
   \<and> (\<not> (extension_module w = None \<and> extension_file h \<in> files w \<and> mod_name h \<in> dom (sys_modules w))
        \<longrightarrow> sys_modules (snd (load_extension h w)) = sys_modules w)
   \<and> (temp_name h \<notin> dom (sys_modules w)
        \<longrightarrow> temp_name h \<notin> dom (sys_modules (snd (load_extension h w))))"
proof (cases "extension_module w")
  case (Some m)
  then show ?thesis by (simp add: load_extension_cached)
next
  case None
  obtain r w' where att: "load_attempt h w = (r, w')"
    by (cases "load_attempt h w")
  have w': "snd (load_extension h w) = w'"
    using None att by (cases r) (simp_all add: load_extension_uncached)
  show ?thesis
    unfolding w' using None load_attempt_registry [OF att] by auto
qed

theorem load_extension_restores_identity_witness:
  "extension_module example_world = None
   \<and> extension_file example_host \<in> files example_world
   \<and> mod_name example_host \<in> dom (sys_modules example_world)
   \<and> temp_name example_host \<notin> dom (sys_modules example_world)
   \<and> fst (load_extension example_host example_world) = Inr 100
   \<and> sys_modules (snd (load_extension example_host example_world)) ''virapy'' = Some 42
   \<and> ''virapy_temp'' \<notin> dom (sys_modules (snd (load_extension example_host example_world)))
   \<and> extension_file example_host \<notin> files (example_world\<lparr>files := {}\<rparr>)
   \<and> fst (load_extension example_host (example_world\<lparr>files := {}\<rparr>)) =
       Inl (ImportError
         ''Failed to import virapy extension: Extension file not found: /site/virapy/virapy.so'')
   \<and> sys_modules (snd (load_extension example_host (example_world\<lparr>files := {}\<rparr>))) =
       [''virapy'' \<mapsto> 42]
   \<and> extension_file example_broken_host \<in> files example_world
   \<and> mod_name example_broken_host \<in> dom (sys_modules example_world)
   \<and> fst (load_extension example_broken_host example_world) =
       Inl (ImportError ''Failed to import virapy extension: undefined symbol'')
   \<and> sys_modules (snd (load_extension example_broken_host example_world)) ''virapy'' = Some 42
   \<and> ''virapy_temp'' \<notin> dom (sys_modules (snd (load_extension example_broken_host example_world)))"
  using load_extension_restores_identity [of example_host example_world]
    load_extension_restores_identity [of example_host "example_world\<lparr>files := {}\<rparr>"]
    load_extension_restores_identity [of example_broken_host example_world]
  by (simp add: example_defs host_defs)

subsection \<open>Idempotent load\<close>

text \<open>
  Claim C2.  Starting without a cached handle, once the first call of
  \<^verbatim>\<open>_load_extension\<close> has succeeded with the handle \<open>m\<close>, any number \<open>N \<ge> 1\<close> of calls in
  sequence returns \<open>m\<close> every time and ends in the state \<open>w1\<close> the first call left.  That
  state is the initial one after one creation of the module \<open>m\<close> and one execution of it:
  its registry and native state are what \<^verbatim>\<open>exec_module\<close> produced, with the wrapper's name
  bound again and the alias removed, and nothing else has changed but the cache and the
  log.  A further call, in whatever state \<open>w2\<close> still holds the handle, returns the cached
  handle and changes nothing (no path is resolved, nothing is executed).
\<close>

theorem load_extension_idempotent:
  assumes "extension_module w = None" and "load_extension h w = (Inr m, w1)" and "1 \<le> N"
  shows "load_n h N w = (replicate N (Inr m), w1)
       \<and> (\<exists>this sp reg1 n1 reg2 n2.
             sys_modules w (mod_name h) = Some this
           \<and> spec_from_file_location h (mod_name h) (extension_file h) (native w) = Inr (Some sp)
           \<and> module_from_spec h sp ((sys_modules w)(temp_name h \<mapsto> this, mod_name h := None)) (native w)
                = (Inr m, reg1, n1)
           \<and> exec_module h sp m reg1 n1 = (Inr (), reg2, n2)
           \<and> w1 = w\<lparr>sys_modules := reg2(mod_name h \<mapsto> this, temp_name h := None),
                     native := n2, extension_module := Some m,
                     events := events w @ [Located (extension_file h), NativeLoad (extension_file h)]\<rparr>)
       \<and> length (filter is_native_load (events w1)) = length (filter is_native_load (events w)) + 1
       \<and> load_extension h w1 = (Inr m, w1)
       \<and> (extension_module w2 = Some m \<longrightarrow> load_extension h w2 = (Inr m, w2))"
proof -
  have cached: "extension_module w1 = Some m"
    using assms(2) by (rule load_extension_success)
  obtain k where N: "N = Suc k"
    using assms(3) by (cases N) auto
  have calls: "load_n h N w = (replicate N (Inr m), w1)"
    by (simp add: N assms(2) load_n_cached [OF cached])
  have attempt: "load_attempt h w = (Inr m, w1)"
    using assms(1,2)
    by (auto simp: load_extension_def split: option.splits prod.splits sum.splits if_splits)
  then obtain tm w3 where
      bound: "sys_modules w (mod_name h) = Some tm"
    and imp: "import_extension h (extension_file h)
                (w\<lparr>events := events w @ [Located (extension_file h)],
                   sys_modules := (sys_modules w)(temp_name h \<mapsto> tm, mod_name h := None)\<rparr>)
              = (Inr m, w3)"
    and w1: "w1 = w3\<lparr>sys_modules := (sys_modules w3)(mod_name h \<mapsto> tm, temp_name h := None)\<rparr>"
    by (auto simp: load_attempt_def Let_def log_event_def
             split: if_splits option.splits prod.splits)
  from imp obtain sp reg1 n1 reg2 n2 where
      spec: "spec_from_file_location h (mod_name h) (extension_file h) (native w) = Inr (Some sp)"
    and created: "module_from_spec h sp ((sys_modules w)(temp_name h \<mapsto> tm, mod_name h := None))
                    (native w) = (Inr m, reg1, n1)"
    and executed: "exec_module h sp m reg1 n1 = (Inr (), reg2, n2)"
    and w3: "w3 = w\<lparr>events := events w @ [Located (extension_file h), NativeLoad (extension_file h)],
                    sys_modules := reg2, native := n2, extension_module := Some m\<rparr>"
    by (auto simp: import_extension_def log_event_def
             split: sum.splits option.splits if_splits prod.splits)
  have once: "\<exists>this sp reg1 n1 reg2 n2.
             sys_modules w (mod_name h) = Some this
           \<and> spec_from_file_location h (mod_name h) (extension_file h) (native w) = Inr (Some sp)
           \<and> module_from_spec h sp ((sys_modules w)(temp_name h \<mapsto> this, mod_name h := None)) (native w)
                = (Inr m, reg1, n1)
           \<and> exec_module h sp m reg1 n1 = (Inr (), reg2, n2)
           \<and> w1 = w\<lparr>sys_modules := reg2(mod_name h \<mapsto> this, temp_name h := None),
                     native := n2, extension_module := Some m,
                     events := events w @ [Located (extension_file h), NativeLoad (extension_file h)]\<rparr>"
    using bound spec created executed
    by (intro exI [of _ tm] exI [of _ sp] exI [of _ reg1] exI [of _ n1]
          exI [of _ reg2] exI [of _ n2]) (simp add: w1 w3)
  have count: "length (filter is_native_load (events w1)) = length (filter is_native_load (events w)) + 1"
    by (simp add: w1 w3)
  have again: "load_extension h w1 = (Inr m, w1)"
    using cached by (rule load_extension_cached)
  have later: "extension_module w2 = Some m \<longrightarrow> load_extension h w2 = (Inr m, w2)"
    by (simp add: load_extension_cached)
  show ?thesis
    using calls once count again later by blast
qed

theorem load_extension_idempotent_witness:
  "extension_module counting_world = None
   \<and> native counting_world = 0
   \<and> load_extension counting_host counting_world = (Inr 100, counting_loaded_world)
   \<and> (1::nat) \<le> 3
   \<and> load_n counting_host 3 counting_world = ([Inr 100, Inr 100, Inr 100], counting_loaded_world)
   \<and> native (snd (load_n counting_host 3 counting_world)) = 1
   \<and> sys_modules (snd (load_n counting_host 3 counting_world)) ''_virapy_core'' = Some 101
   \<and> length (filter is_native_load (events counting_loaded_world)) = 1
   \<and> load_extension counting_host counting_loaded_world = (Inr 100, counting_loaded_world)
   \<and> extension_module (counting_loaded_world\<lparr>files := {}\<rparr>) = Some 100
   \<and> load_extension counting_host (counting_loaded_world\<lparr>files := {}\<rparr>) =
        (Inr 100, counting_loaded_world\<lparr>files := {}\<rparr>)"
proof -
  have h1: "extension_module counting_world = None"
    by (simp add: counting_world_def)
  have h2: "load_extension counting_host counting_world = (Inr 100, counting_loaded_world)"
    by (simp add: counting_defs)
  have h3: "(1::nat) \<le> 3"
    by simp
  note inst = load_extension_idempotent [OF h1 h2 h3, of "counting_loaded_world\<lparr>files := {}\<rparr>"]
  have run: "load_n counting_host 3 counting_world = (replicate 3 (Inr 100), counting_loaded_world)"
    using inst by blast
  have again: "load_extension counting_host (counting_loaded_world\<lparr>files := {}\<rparr>) =
        (Inr 100, counting_loaded_world\<lparr>files := {}\<rparr>)"
    using inst by (simp add: counting_loaded_world_def)
  show ?thesis
    using h1 h2 inst run again
    by (simp add: numeral_3_eq_3 counting_world_def counting_loaded_world_def)
qed

subsection \<open>A missing extension file\<close>

text \<open>
  Claim C4.  Without a cached handle and with no file at the resolved path, the call
  raises an \<^verbatim>\<open>ImportError\<close> whose message ends with that path, and the cache is still
  empty afterwards.  When the file is then put back and the import machinery accepts it
  (the name is bound in the registry, a spec with a loader is created, the module is
  created and executed without an exception), the next call makes a new attempt: it checks
  the path again, creates and executes the module, returns the handle and caches it, and
  the state it leaves carries the registry and the native state that the execution of the
  module produced.
\<close>

theorem missing_file_not_cached:
  assumes "extension_module w = None" and "extension_file h \<notin> files w"
  shows "load_extension h w =
           (Inl (ImportError (''Failed to import virapy extension: Extension file not found: ''
                   @ extension_file h)),
            log_event (Located (extension_file h)) w)
       \<and> extension_module (snd (load_extension h w)) = None
       \<and> (sys_modules w (mod_name h) = Some this
          \<and> spec_from_file_location h (mod_name h) (extension_file h) (native w) = Inr (Some sp)
          \<and> spec_loader sp \<noteq> None
          \<and> module_from_spec h sp ((sys_modules w)(temp_name h \<mapsto> this, mod_name h := None)) (native w)
               = (Inr m, reg1, n1)
          \<and> exec_module h sp m reg1 n1 = (Inr (), reg2, n2)
          \<longrightarrow> (let w2 = (snd (load_extension h w))\<lparr>files := insert (extension_file h) (files w)\<rparr>
                in load_extension h w2 =
                     (Inr m,
                      w2\<lparr>sys_modules := reg2(mod_name h \<mapsto> this, temp_name h := None),
                         native := n2, extension_module := Some m,
                         events := events w @ [Located (extension_file h), Located (extension_file h),
                                               NativeLoad (extension_file h)]\<rparr>)))"
proof -
  have first: "load_extension h w =
           (Inl (ImportError (''Failed to import virapy extension: Extension file not found: ''
                   @ extension_file h)),
            log_event (Located (extension_file h)) w)"
    using assms by (simp add: load_extension_def load_attempt_def Let_def log_event_def)
  have second: "extension_module (snd (load_extension h w)) = None"
    using assms(1) by (simp add: first log_event_def)
  have third: "load_extension h w2 =
                     (Inr m,
                      w2\<lparr>sys_modules := reg2(mod_name h \<mapsto> this, temp_name h := None),
                         native := n2, extension_module := Some m,
                         events := events w @ [Located (extension_file h), Located (extension_file h),
                                               NativeLoad (extension_file h)]\<rparr>)"
    if machinery: "sys_modules w (mod_name h) = Some this"
          "spec_from_file_location h (mod_name h) (extension_file h) (native w) = Inr (Some sp)"
          "spec_loader sp \<noteq> None"
          "module_from_spec h sp ((sys_modules w)(temp_name h \<mapsto> this, mod_name h := None)) (native w)
               = (Inr m, reg1, n1)"
          "exec_module h sp m reg1 n1 = (Inr (), reg2, n2)"
      and w2: "w2 = (snd (load_extension h w))\<lparr>files := insert (extension_file h) (files w)\<rparr>"
    for w2
    unfolding w2 first using assms(1) machinery
    by (auto simp: load_extension_def load_attempt_def import_extension_def Let_def log_event_def)
  show ?thesis
    using first second third by (simp add: Let_def)
qed

theorem missing_file_not_cached_witness:
  "extension_module (counting_world\<lparr>files := {}\<rparr>) = None
   \<and> extension_file counting_host \<notin> files (counting_world\<lparr>files := {}\<rparr>)
   \<and> sys_modules (counting_world\<lparr>files := {}\<rparr>) (mod_name counting_host) = Some 42
   \<and> spec_from_file_location counting_host (mod_name counting_host) (extension_file counting_host)
        (native (counting_world\<lparr>files := {}\<rparr>)) = Inr (Some example_spec)
   \<and> spec_loader example_spec \<noteq> None
   \<and> module_from_spec counting_host example_spec [''virapy_temp'' \<mapsto> 42] 0 =
        (Inr 100, [''virapy_temp'' \<mapsto> 42], 0)
   \<and> exec_module counting_host example_spec 100 [''virapy_temp'' \<mapsto> 42] 0 =
        (Inr (), [''virapy_temp'' \<mapsto> 42, ''_virapy_core'' \<mapsto> 101], 1)
   \<and> load_extension counting_host (counting_world\<lparr>files := {}\<rparr>) =
       (Inl (ImportError
          ''Failed to import virapy extension: Extension file not found: /site/virapy/virapy.so''),
        counting_world\<lparr>files := {}, events := [Located ''/site/virapy/virapy.so'']\<rparr>)
   \<and> fst (load_extension counting_host
        (counting_world\<lparr>events := [Located ''/site/virapy/virapy.so'']\<rparr>)) = Inr 100
   \<and> native (snd (load_extension counting_host
        (counting_world\<lparr>events := [Located ''/site/virapy/virapy.so'']\<rparr>))) = 1
   \<and> extension_module (snd (load_extension counting_host
        (counting_world\<lparr>events := [Located ''/site/virapy/virapy.so'']\<rparr>))) = Some 100
   \<and> sys_modules (snd (load_extension counting_host
        (counting_world\<lparr>events := [Located ''/site/virapy/virapy.so'']\<rparr>))) ''_virapy_core''
        = Some 101"
proof -
  let ?w = "counting_world\<lparr>files := {}\<rparr>"
  let ?v = "counting_world\<lparr>events := [Located ''/site/virapy/virapy.so'']\<rparr>"
  have h1: "extension_module ?w = None"
    by (simp add: counting_world_def)
  have h2: "extension_file counting_host \<notin> files ?w"
    by simp
  have swapped: "(sys_modules ?w)(temp_name counting_host \<mapsto> 42, mod_name counting_host := None)
                   = [''virapy_temp'' \<mapsto> 42]"
    by (rule ext) (simp add: counting_defs)
  have h3: "sys_modules ?w (mod_name counting_host) = Some 42"
    by (simp add: counting_defs)
  have h4: "spec_from_file_location counting_host (mod_name counting_host)
              (extension_file counting_host) (native ?w) = Inr (Some example_spec)"
    by (simp add: counting_defs example_spec_def)
  have h5: "spec_loader example_spec \<noteq> None"
    by (simp add: example_spec_def)
  have h6: "module_from_spec counting_host example_spec
              ((sys_modules ?w)(temp_name counting_host \<mapsto> 42, mod_name counting_host := None))
              (native ?w) =
            (Inr 100, [''virapy_temp'' \<mapsto> 42], 0)"
    unfolding swapped by (simp add: counting_defs)
  have h7: "exec_module counting_host example_spec 100 [''virapy_temp'' \<mapsto> 42] 0 =
        (Inr (), [''virapy_temp'' \<mapsto> 42, ''_virapy_core'' \<mapsto> 101], 1)"
    by (simp add: counting_defs)
  have restored:
    "(snd (load_extension counting_host ?w))\<lparr>files := insert (extension_file counting_host) (files ?w)\<rparr>
       = ?v"
    by (simp add: counting_defs)
  note inst = missing_file_not_cached [OF h1 h2, of 42 example_spec 100
        "[''virapy_temp'' \<mapsto> 42]" 0 "[''virapy_temp'' \<mapsto> 42, ''_virapy_core'' \<mapsto> 101]" 1]
  have later: "load_extension counting_host ?v =
     (Inr 100,
      ?v\<lparr>sys_modules := [''virapy_temp'' \<mapsto> 42, ''_virapy_core'' \<mapsto> 101]
             (mod_name counting_host \<mapsto> 42, temp_name counting_host := None),
         native := 1, extension_module := Some 100,
         events := events ?w @ [Located (extension_file counting_host),
                      Located (extension_file counting_host),
                      NativeLoad (extension_file counting_host)]\<rparr>)"
    using inst h3 h4 h5 h6 h7 unfolding Let_def restored by blast
  have direct: "native (snd (load_extension counting_host ?v)) = 1
     \<and> sys_modules (snd (load_extension counting_host ?v)) ''_virapy_core'' = Some 101"
    by (simp add: counting_defs)
  show ?thesis
    using h1 h2 h3 h4 h5 h6 h7 inst swapped direct
    by (simp add: later) (simp add: counting_defs example_spec_def)
qed

subsection \<open>Exceptions of the load become ImportErrors\<close>

text \<open>
  Claim C9, as amended.  Whenever \<^verbatim>\<open>_load_extension\<close> raises, the attempt has ended with
  an exception \<open>e0\<close>.  If \<open>e0\<close> is an instance of \<^verbatim>\<open>Exception\<close>, what is raised is an
  \<^verbatim>\<open>ImportError\<close> whose message is the fixed text followed by the string of \<open>e0\<close>; otherwise
  \<open>e0\<close> itself is raised.  For a missing file \<open>e0\<close> is the \<^verbatim>\<open>ImportError\<close> of line 43, so it
  is wrapped a second time; when no spec (or no loader) is obtained it is the
  \<^verbatim>\<open>ImportError\<close> of line 66; when executing the module raises, it is that exception.
  The wrapped failures all have the class \<^verbatim>\<open>ImportError\<close> and differ in the text only.
\<close>

theorem load_exceptions_wrapped:
  "(load_extension h w = (Inl e, w')
      \<longrightarrow> (\<exists>e0. load_attempt h w = (Inl e0, w')
             \<and> e = (if is_exception e0
                    then ImportError (''Failed to import virapy extension: '' @ exn_str e0)
                    else e0)))
   \<and> (extension_module w = None \<and> extension_file h \<notin> files w
      \<longrightarrow> fst (load_extension h w) =
            Inl (ImportError (''Failed to import virapy extension: ''
                   @ exn_str (ImportError (''Extension file not found: '' @ extension_file h)))))
   \<and> (extension_module w = None \<and> extension_file h \<in> files w
        \<and> sys_modules w (mod_name h) = Some this
        \<and> (spec_from_file_location h (mod_name h) (extension_file h) (native w) = Inr None
           \<or> spec_from_file_location h (mod_name h) (extension_file h) (native w) = Inr (Some sp0)
             \<and> spec_loader sp0 = None)
      \<longrightarrow> fst (load_extension h w) =
            Inl (ImportError (''Failed to import virapy extension: ''
                   @ exn_str (ImportError (''Could not create spec for '' @ extension_file h)))))
   \<and> (extension_module w = None \<and> extension_file h \<in> files w
        \<and> sys_modules w (mod_name h) = Some this
        \<and> spec_from_file_location h (mod_name h) (extension_file h) (native w) = Inr (Some sp)
        \<and> spec_loader sp \<noteq> None
        \<and> module_from_spec h sp ((sys_modules w)(temp_name h \<mapsto> this, mod_name h := None)) (native w)
             = (Inr m, reg1, n1)
        \<and> exec_module h sp m reg1 n1 = (Inl e1, reg2, n2)
      \<longrightarrow> fst (load_extension h w) =
            Inl (if is_exception e1
                 then ImportError (''Failed to import virapy extension: '' @ exn_str e1)
                 else e1))"
proof -
  have general: "\<exists>e0. load_attempt h w = (Inl e0, w')
             \<and> e = (if is_exception e0
                    then ImportError (''Failed to import virapy extension: '' @ exn_str e0)
                    else e0)"
    if "load_extension h w = (Inl e, w')"
    using that
    by (auto simp: load_extension_def split: option.splits prod.splits sum.splits if_splits)
  have missing: "fst (load_extension h w) =
            Inl (ImportError (''Failed to import virapy extension: ''
                   @ exn_str (ImportError (''Extension file not found: '' @ extension_file h))))"
    if "extension_module w = None" "extension_file h \<notin> files w"
    using that by (simp add: load_extension_def load_attempt_def Let_def log_event_def)
  have nospec: "fst (load_extension h w) =
            Inl (ImportError (''Failed to import virapy extension: ''
                   @ exn_str (ImportError (''Could not create spec for '' @ extension_file h))))"
    if "extension_module w = None" "extension_file h \<in> files w"
       "sys_modules w (mod_name h) = Some this"
       "spec_from_file_location h (mod_name h) (extension_file h) (native w) = Inr None
           \<or> spec_from_file_location h (mod_name h) (extension_file h) (native w) = Inr (Some sp0)
             \<and> spec_loader sp0 = None"
    using that
    by (auto simp: load_extension_def load_attempt_def import_extension_def Let_def log_event_def)
  have execfail: "fst (load_extension h w) =
            Inl (if is_exception e1
                 then ImportError (''Failed to import virapy extension: '' @ exn_str e1)
                 else e1)"
    if "extension_module w = None" "extension_file h \<in> files w"
       "sys_modules w (mod_name h) = Some this"
       "spec_from_file_location h (mod_name h) (extension_file h) (native w) = Inr (Some sp)"
       "spec_loader sp \<noteq> None"
       "module_from_spec h sp ((sys_modules w)(temp_name h \<mapsto> this, mod_name h := None)) (native w)
             = (Inr m, reg1, n1)"
       "exec_module h sp m reg1 n1 = (Inl e1, reg2, n2)"
    using that
    by (auto simp: load_extension_def load_attempt_def import_extension_def Let_def log_event_def)
  show ?thesis
    using general missing nospec execfail by blast
qed

theorem load_exceptions_wrapped_witness:
  "extension_module example_world = None
   \<and> extension_file example_host \<notin> files (example_world\<lparr>files := {}\<rparr>)
   \<and> load_extension example_host (example_world\<lparr>files := {}\<rparr>) =
       (Inl (ImportError
          ''Failed to import virapy extension: Extension file not found: /site/virapy/virapy.so''),
        example_world\<lparr>files := {}, events := [Located ''/site/virapy/virapy.so'']\<rparr>)
   \<and> load_attempt example_host (example_world\<lparr>files := {}\<rparr>) =
       (Inl (ImportError ''Extension file not found: /site/virapy/virapy.so''),
        example_world\<lparr>files := {}, events := [Located ''/site/virapy/virapy.so'']\<rparr>)
   \<and> extension_file example_specless_host \<in> files example_world
   \<and> sys_modules example_world (mod_name example_specless_host) = Some 42
   \<and> spec_from_file_location example_specless_host (mod_name example_specless_host)
        (extension_file example_specless_host) (native example_world) = Inr None
   \<and> fst (load_extension example_specless_host example_world) =
       Inl (ImportError
          ''Failed to import virapy extension: Could not create spec for /site/virapy/virapy.so'')
   \<and> spec_from_file_location example_broken_host (mod_name example_broken_host)
        (extension_file example_broken_host) (native example_world) = Inr (Some example_spec)
   \<and> exec_module example_broken_host example_spec 100 [''virapy_temp'' \<mapsto> 42] None =
        (Inl (ImportError ''undefined symbol''), [''virapy_temp'' \<mapsto> 42], None)
   \<and> fst (load_extension example_broken_host example_world) =
       Inl (ImportError ''Failed to import virapy extension: undefined symbol'')
   \<and> exec_module example_interrupted_host example_spec 100 [''virapy_temp'' \<mapsto> 42] None =
        (Inl (BaseExn ''KeyboardInterrupt'' ''''), [''virapy_temp'' \<mapsto> 42], None)
   \<and> fst (load_extension example_interrupted_host example_world) =
       Inl (BaseExn ''KeyboardInterrupt'' '''')"
proof -
  let ?w = "example_world\<lparr>files := {}\<rparr>"
  let ?w' = "example_world\<lparr>files := {}, events := [Located ''/site/virapy/virapy.so'']\<rparr>"
  let ?e = "ImportError
          ''Failed to import virapy extension: Extension file not found: /site/virapy/virapy.so''"
  have a1: "load_extension example_host ?w = (Inl ?e, ?w')"
    by (simp add: example_defs)
  have a2: "extension_module ?w = None \<and> extension_file example_host \<notin> files ?w"
    by (simp add: example_defs)
  have swapped:
    "(sys_modules example_world)(temp_name example_broken_host \<mapsto> 42,
        mod_name example_broken_host := None) = [''virapy_temp'' \<mapsto> 42]"
    by (rule ext) (simp add: example_defs host_defs)
  have c: "extension_module example_world = None
      \<and> extension_file example_specless_host \<in> files example_world
      \<and> sys_modules example_world (mod_name example_specless_host) = Some 42
      \<and> spec_from_file_location example_specless_host (mod_name example_specless_host)
           (extension_file example_specless_host) (native example_world) = Inr None"
    by (simp add: example_defs host_defs)
  have d: "extension_module example_world = None
      \<and> extension_file example_broken_host \<in> files example_world
      \<and> sys_modules example_world (mod_name example_broken_host) = Some 42
      \<and> spec_from_file_location example_broken_host (mod_name example_broken_host)
           (extension_file example_broken_host) (native example_world) = Inr (Some example_spec)
      \<and> spec_loader example_spec \<noteq> None
      \<and> module_from_spec example_broken_host example_spec
           ((sys_modules example_world)(temp_name example_broken_host \<mapsto> 42,
              mod_name example_broken_host := None)) (native example_world)
           = (Inr 100, [''virapy_temp'' \<mapsto> 42], None)
      \<and> exec_module example_broken_host example_spec 100 [''virapy_temp'' \<mapsto> 42] None =
           (Inl (ImportError ''undefined symbol''), [''virapy_temp'' \<mapsto> 42], None)"
    unfolding swapped by (simp add: example_defs host_defs)
  note missing = load_exceptions_wrapped
    [where h = example_host and w = ?w and e = ?e and w' = ?w']
  note nospec = load_exceptions_wrapped
    [where h = example_specless_host and w = example_world and this = 42]
  note execfail = load_exceptions_wrapped
    [where h = example_broken_host and w = example_world and this = 42 and sp = example_spec
       and m = 100 and ?reg1.0 = "[''virapy_temp'' \<mapsto> 42]" and ?n1.0 = None
       and ?e1.0 = "ImportError ''undefined symbol''" and ?reg2.0 = "[''virapy_temp'' \<mapsto> 42]"
       and ?n2.0 = None]
  have r1: "\<exists>e0. load_attempt example_host ?w = (Inl e0, ?w')
             \<and> ?e = (if is_exception e0
                     then ImportError (''Failed to import virapy extension: '' @ exn_str e0)
                     else e0)"
    using missing a1 by blast
  have r3: "fst (load_extension example_specless_host example_world) =
       Inl (ImportError (''Failed to import virapy extension: ''
              @ exn_str (ImportError (''Could not create spec for ''
                   @ extension_file example_specless_host))))"
    using nospec c by blast
  have r4: "fst (load_extension example_broken_host example_world) =
       Inl (if is_exception (ImportError ''undefined symbol'')
            then ImportError (''Failed to import virapy extension: ''
                   @ exn_str (ImportError ''undefined symbol''))
            else ImportError ''undefined symbol'')"
    using execfail d by blast
  have swapped': 
    "(sys_modules example_world)(temp_name example_interrupted_host \<mapsto> 42,
        mod_name example_interrupted_host := None) = [''virapy_temp'' \<mapsto> 42]"
    by (rule ext) (simp add: example_defs host_defs)
  have i: "extension_module example_world = None
      \<and> extension_file example_interrupted_host \<in> files example_world
      \<and> sys_modules example_world (mod_name example_interrupted_host) = Some 42
      \<and> spec_from_file_location example_interrupted_host (mod_name example_interrupted_host)
           (extension_file example_interrupted_host) (native example_world) = Inr (Some example_spec)
      \<and> spec_loader example_spec \<noteq> None
      \<and> module_from_spec example_interrupted_host example_spec
           ((sys_modules example_world)(temp_name example_interrupted_host \<mapsto> 42,
              mod_name example_interrupted_host := None)) (native example_world)
           = (Inr 100, [''virapy_temp'' \<mapsto> 42], None)
      \<and> exec_module example_interrupted_host example_spec 100 [''virapy_temp'' \<mapsto> 42] None =
           (Inl (BaseExn ''KeyboardInterrupt'' ''''), [''virapy_temp'' \<mapsto> 42], None)"
    unfolding swapped' by (simp add: example_defs host_defs)
  note interrupted = load_exceptions_wrapped
    [where h = example_interrupted_host and w = example_world and this = 42 and sp = example_spec
       and m = 100 and ?reg1.0 = "[''virapy_temp'' \<mapsto> 42]" and ?n1.0 = None
       and ?e1.0 = "BaseExn ''KeyboardInterrupt'' ''''" and ?reg2.0 = "[''virapy_temp'' \<mapsto> 42]"
       and ?n2.0 = None]
  have r5: "fst (load_extension example_interrupted_host example_world) =
       Inl (if is_exception (BaseExn ''KeyboardInterrupt'' '''')
            then ImportError (''Failed to import virapy extension: ''
                   @ exn_str (BaseExn ''KeyboardInterrupt'' ''''))
            else BaseExn ''KeyboardInterrupt'' '''')"
    using interrupted i by blast
  have att: "load_attempt example_host ?w =
       (Inl (ImportError ''Extension file not found: /site/virapy/virapy.so''), ?w')"
    by (simp add: example_defs)
  have path: "extension_file example_specless_host = ''/site/virapy/virapy.so''"
    by (simp add: example_defs host_defs)
  show ?thesis
    using a1 a2 c d i r1 r3 r4 r5 att unfolding path swapped swapped' by simp
qed

text \<open>
  The claim as first stated, that every failure surfaces as an \<^verbatim>\<open>ImportError\<close>, fails when
  the execution of the module ends with a \<^verbatim>\<open>KeyboardInterrupt\<close>: the handler of line 74 does
  not catch it, and it leaves the loader as it is.
\<close>

theorem keyboard_interrupt_not_wrapped:
  "extension_module example_world = None
   \<and> extension_file example_interrupted_host \<in> files example_world
   \<and> exec_module example_interrupted_host example_spec 100 [''virapy_temp'' \<mapsto> 42] None =
        (Inl (BaseExn ''KeyboardInterrupt'' ''''), [''virapy_temp'' \<mapsto> 42], None)
   \<and> fst (load_extension example_interrupted_host example_world) =
        Inl (BaseExn ''KeyboardInterrupt'' '''')
   \<and> fst (load_extension example_interrupted_host example_world) \<noteq>
        Inl (ImportError (''Failed to import virapy extension: ''
               @ exn_str (BaseExn ''KeyboardInterrupt'' '''')))
   \<and> exn_type (BaseExn ''KeyboardInterrupt'' '''') \<noteq> ''ImportError''"
  by (simp add: example_defs host_defs)

section \<open>Properties of the proxies\<close>

subsection \<open>Auxiliary facts\<close>

lemma ensure_activated_active:
  "activated p \<Longrightarrow> ensure_activated h p w = (Inr (), p, w)"
  by (simp add: ensure_activated_def)

lemma ensure_activated_success:
  assumes "ensure_activated h p w = (Inr u, p', w')"
  shows "activated p'"
  using assms
  by (auto simp: ensure_activated_def Let_def split: if_splits prod.splits sum.splits)

lemma ensure_activated_first_use:
  assumes "\<not> activated q" and "ensure_activated h q v = (Inr u, q', v')"
  shows "\<exists>ext v1 n. load_extension h v = (Inr ext, v1)
           \<and> obj_getattr h (Some ext) (name q) (native v1) = Inr (submodule q')
           \<and> call_activate h (submodule q') (native v1) = (Inr (), n)
           \<and> q' = q\<lparr>submodule := submodule q', activated := True\<rparr>
           \<and> v' = (log_event (Activation (name q)) v1)\<lparr>native := n\<rparr>"
  using assms
  by (auto simp: ensure_activated_def Let_def log_event_def split: prod.splits sum.splits)

lemma LazySubmodule_access_active:
  "activated p \<Longrightarrow>
   LazySubmodule_access h p attr w =
     ((case own_attribute h p attr of Some x \<Rightarrow> Inr x | None \<Rightarrow> forwarded h p attr w), p, w)"
  by (simp add: LazySubmodule_access_def LazySubmodule_getattr_def ensure_activated_active
        forwarded_def split: option.splits sum.splits)

lemma proxy_uses_active:
  "activated p \<Longrightarrow>
   proxy_uses h p attrs w =
     (map (\<lambda>a. case own_attribute h p a of Some x \<Rightarrow> Inr x | None \<Rightarrow> forwarded h p a w) attrs,
      p, w)"
  by (induction attrs) (simp_all add: LazySubmodule_access_active)

subsection \<open>A failed activation\<close>

text \<open>
  Claim C5.  When a dormant proxy is used, the extension loads and the submodule is found,
  but \<^verbatim>\<open>_activate()\<close> raises \<open>e\<close>, then the use (\<^verbatim>\<open>__getattr__\<close> or \<^verbatim>\<open>__dir__\<close>) raises
  that same \<open>e\<close> and the proxy's flag \<^verbatim>\<open>_activated\<close> is still false.  A later use of the
  proxy, in any later state \<open>v\<close>, goes through the whole sequence again: it calls the
  loader, looks the submodule up, and calls \<^verbatim>\<open>_activate()\<close>, whose outcome \<open>r'\<close> decides
  whether the proxy becomes active.
\<close>

theorem activation_failure_leaves_dormant:
  assumes "\<not> activated p"
    and "load_extension h w = (Inr ext, w1)"
    and "obj_getattr h (Some ext) (name p) (native w1) = Inr sub"
    and "call_activate h sub (native w1) = (Inl e, n)"
  shows "LazySubmodule_getattr h p attr w =
           (Inl e, p\<lparr>submodule := sub\<rparr>, (log_event (Activation (name p)) w1)\<lparr>native := n\<rparr>)
       \<and> LazySubmodule_dir h p w =
           (Inl e, p\<lparr>submodule := sub\<rparr>, (log_event (Activation (name p)) w1)\<lparr>native := n\<rparr>)
       \<and> \<not> activated (fst (snd (LazySubmodule_getattr h p attr w)))
       \<and> (load_extension h v = (Inr ext', v1)
          \<and> obj_getattr h (Some ext') (name p) (native v1) = Inr sub'
          \<and> call_activate h sub' (native v1) = (r', n')
          \<longrightarrow> ensure_activated h (fst (snd (LazySubmodule_getattr h p attr w))) v =
                (r', p\<lparr>submodule := sub', activated := (case r' of Inl e' \<Rightarrow> False | Inr u \<Rightarrow> True)\<rparr>,
                 (log_event (Activation (name p)) v1)\<lparr>native := n'\<rparr>))"
proof -
  have use: "ensure_activated h p w =
      (Inl e, p\<lparr>submodule := sub\<rparr>, (log_event (Activation (name p)) w1)\<lparr>native := n\<rparr>)"
    using assms by (simp add: ensure_activated_def Let_def log_event_def)
  have get: "LazySubmodule_getattr h p attr w =
           (Inl e, p\<lparr>submodule := sub\<rparr>, (log_event (Activation (name p)) w1)\<lparr>native := n\<rparr>)"
    by (simp add: LazySubmodule_getattr_def use)
  have dir: "LazySubmodule_dir h p w =
           (Inl e, p\<lparr>submodule := sub\<rparr>, (log_event (Activation (name p)) w1)\<lparr>native := n\<rparr>)"
    by (simp add: LazySubmodule_dir_def use)
  have retry: "ensure_activated h (p\<lparr>submodule := sub\<rparr>) v =
                (r', p\<lparr>submodule := sub', activated := (case r' of Inl e' \<Rightarrow> False | Inr u \<Rightarrow> True)\<rparr>,
                 (log_event (Activation (name p)) v1)\<lparr>native := n'\<rparr>)"
    if "load_extension h v = (Inr ext', v1)"
      and "obj_getattr h (Some ext') (name p) (native v1) = Inr sub'"
      and "call_activate h sub' (native v1) = (r', n')"
    using that assms(1) by (cases r') (simp_all add: ensure_activated_def Let_def log_event_def)
  show ?thesis
    using get dir retry assms(1) by simp
qed

theorem activation_failure_leaves_dormant_witness:
  "\<not> activated (LazySubmodule_init ''V1FF'')
   \<and> load_extension example_host example_busy_world = (Inr 100, example_busy_world)
   \<and> obj_getattr example_host (Some 100) (name (LazySubmodule_init ''V1FF''))
        (native example_busy_world) = Inr (Some 1)
   \<and> call_activate example_host (Some 1) (native example_busy_world) =
        (Inl (Exn ''RuntimeError'' ''another submodule is already active''), Some 2)
   \<and> LazySubmodule_getattr example_host (LazySubmodule_init ''V1FF'') ''Camera'' example_busy_world =
        (Inl (Exn ''RuntimeError'' ''another submodule is already active''),
         \<lparr>name = ''V1FF'', submodule = Some 1, activated = False\<rparr>,
         example_busy_world\<lparr>events := events example_busy_world @ [Activation ''V1FF'']\<rparr>)
   \<and> load_extension example_host example_loaded_world = (Inr 100, example_loaded_world)
   \<and> call_activate example_host (Some 1) (native example_loaded_world) = (Inr (), Some 1)
   \<and> ensure_activated example_host \<lparr>name = ''V1FF'', submodule = Some 1, activated = False\<rparr>
        example_loaded_world =
        (Inr (), \<lparr>name = ''V1FF'', submodule = Some 1, activated = True\<rparr>,
         example_loaded_world\<lparr>native := Some 1,
           events := events example_loaded_world @ [Activation ''V1FF'']\<rparr>)"
proof -
  let ?p = "LazySubmodule_init ''V1FF''"
  have h1: "\<not> activated ?p"
    by (simp add: LazySubmodule_init_def)
  have h2: "load_extension example_host example_busy_world = (Inr 100, example_busy_world)"
    by (simp add: example_defs proxy_defs)
  have h3: "obj_getattr example_host (Some 100) (name ?p) (native example_busy_world) = Inr (Some 1)"
    by (simp add: example_defs proxy_defs)
  have h4: "call_activate example_host (Some 1) (native example_busy_world) =
        (Inl (Exn ''RuntimeError'' ''another submodule is already active''), Some 2)"
    by (simp add: example_defs proxy_defs)
  have r1: "load_extension example_host example_loaded_world = (Inr 100, example_loaded_world)"
    by (simp add: example_defs proxy_defs)
  have r3: "call_activate example_host (Some 1) (native example_loaded_world) = (Inr (), Some 1)"
    by (simp add: example_defs proxy_defs)
  note inst = activation_failure_leaves_dormant [OF h1 h2 h3 h4,
      of "''Camera''" example_loaded_world 100 example_loaded_world "Some 1" "Inr ()" "Some 1"]
  show ?thesis
    using h1 h2 h3 h4 r1 r3 inst by (simp add: example_defs proxy_defs)
qed

subsection \<open>An active proxy\<close>

text \<open>
  Claim C6, as amended.  A successful first use of a dormant proxy leaves the flag
  \<^verbatim>\<open>_activated\<close> set and \<^verbatim>\<open>_submodule\<close> holding the object found in the extension under the
  proxy's name.  From then on an access to an attribute that the proxy does not have
  itself, which is an access that reaches \<^verbatim>\<open>__getattr__\<close>, returns what the stored object
  gives for the attribute; an access to one of the proxy's own attributes (its three
  fields, its docstring and methods, and what every object has) returns the proxy's own
  value.  Neither kind of access, nor \<^verbatim>\<open>__dir__\<close>, changes the proxy or the process state:
  over any sequence of accesses the flag stays set and nothing is added to the log, so
  \<^verbatim>\<open>_activate()\<close> is not called again and the loader is not entered.
\<close>

theorem active_proxy_forwards:
  "(\<not> activated q \<and> ensure_activated h q v = (Inr u, p, w)
      \<longrightarrow> activated p
        \<and> (\<exists>ext v1. load_extension h v = (Inr ext, v1)
              \<and> obj_getattr h (Some ext) (name q) (native v1) = Inr (submodule p)))
   \<and> (activated p
      \<longrightarrow> LazySubmodule_getattr h p attr w = (obj_getattr h (submodule p) attr (native w), p, w)
        \<and> LazySubmodule_dir h p w = (obj_dir h (submodule p) (native w), p, w)
        \<and> ensure_activated h p w = (Inr (), p, w)
        \<and> (own_attribute h p attr = None
             \<longrightarrow> LazySubmodule_access h p attr w = (forwarded h p attr w, p, w))
        \<and> (own_attribute h p attr = Some x
             \<longrightarrow> LazySubmodule_access h p attr w = (Inr x, p, w))
        \<and> proxy_uses h p attrs w =
             (map (\<lambda>a. case own_attribute h p a of
                          Some y \<Rightarrow> Inr y
                        | None \<Rightarrow> forwarded h p a w) attrs,
              p, w)
        \<and> activated (fst (snd (proxy_uses h p attrs w)))
        \<and> events (snd (snd (proxy_uses h p attrs w))) = events w)"
proof -
  have first: "activated p
        \<and> (\<exists>ext v1. load_extension h v = (Inr ext, v1)
              \<and> obj_getattr h (Some ext) (name q) (native v1) = Inr (submodule p))"
    if "\<not> activated q" "ensure_activated h q v = (Inr u, p, w)"
    using ensure_activated_first_use [OF that] ensure_activated_success [OF that(2)] by blast
  have later: "LazySubmodule_getattr h p attr w = (obj_getattr h (submodule p) attr (native w), p, w)
        \<and> LazySubmodule_dir h p w = (obj_dir h (submodule p) (native w), p, w)
        \<and> ensure_activated h p w = (Inr (), p, w)
        \<and> (own_attribute h p attr = None
             \<longrightarrow> LazySubmodule_access h p attr w = (forwarded h p attr w, p, w))
        \<and> (own_attribute h p attr = Some x
             \<longrightarrow> LazySubmodule_access h p attr w = (Inr x, p, w))
        \<and> proxy_uses h p attrs w =
             (map (\<lambda>a. case own_attribute h p a of
                          Some y \<Rightarrow> Inr y
                        | None \<Rightarrow> forwarded h p a w) attrs,
              p, w)
        \<and> activated (fst (snd (proxy_uses h p attrs w)))
        \<and> events (snd (snd (proxy_uses h p attrs w))) = events w"
    if "activated p"
    using that
    by (simp add: LazySubmodule_getattr_def LazySubmodule_dir_def ensure_activated_active
          proxy_uses_active LazySubmodule_access_active)
  show ?thesis
    using first later by blast
qed

theorem active_proxy_forwards_witness:
  "\<not> activated (LazySubmodule_init ''V1FF'')
   \<and> ensure_activated example_host (LazySubmodule_init ''V1FF'') example_world =
        (Inr (), example_active_proxy, example_active_world)
   \<and> activated example_active_proxy
   \<and> submodule example_active_proxy = Some 1
   \<and> own_attribute example_host example_active_proxy ''Camera'' = None
   \<and> own_attribute example_host example_active_proxy ''_activated'' = Some (Flag True)
   \<and> LazySubmodule_getattr example_host example_active_proxy ''Camera'' example_active_world =
        (Inr (Some 50), example_active_proxy, example_active_world)
   \<and> LazySubmodule_access example_host example_active_proxy ''Camera'' example_active_world =
        (Inr (Obj (Some 50)), example_active_proxy, example_active_world)
   \<and> LazySubmodule_access example_host example_active_proxy ''_activated'' example_active_world =
        (Inr (Flag True), example_active_proxy, example_active_world)
   \<and> proxy_uses example_host example_active_proxy [''Camera'', ''Light'', ''__doc__'']
        example_active_world =
        ([Inr (Obj (Some 50)), Inl (Exn ''AttributeError'' ''no attribute Light''),
          Inr (Str ''Lazy loader for submodules'')],
         example_active_proxy, example_active_world)
   \<and> filter is_activation (events example_active_world) = [Activation ''V1FF'']"
proof -
  have h1: "\<not> activated (LazySubmodule_init ''V1FF'')"
    by (simp add: LazySubmodule_init_def)
  have h2: "ensure_activated example_host (LazySubmodule_init ''V1FF'') example_world =
        (Inr (), example_active_proxy, example_active_world)"
    by (simp add: example_defs proxy_defs)
  have h4: "own_attribute example_host example_active_proxy ''Camera'' = None"
    by (simp add: own_attribute_def example_host_def)
  have h5: "own_attribute example_host example_active_proxy ''_activated'' = Some (Flag True)"
    by (simp add: own_attribute_def example_active_proxy_def)
  note inst = active_proxy_forwards
    [where h = example_host and q = "LazySubmodule_init ''V1FF''" and v = example_world
       and u = "()" and p = example_active_proxy and w = example_active_world
       and attr = "''Camera''" and attrs = "[''Camera'', ''Light'', ''__doc__'']"]
  note inst' = active_proxy_forwards
    [where h = example_host and p = example_active_proxy and w = example_active_world
       and attr = "''_activated''" and x = "Flag True"]
  have h3: "activated example_active_proxy"
    using inst h1 h2 by blast
  have own: "LazySubmodule_access example_host example_active_proxy ''_activated''
       example_active_world = (Inr (Flag True), example_active_proxy, example_active_world)"
    using inst' h3 h5 by blast
  have fwd: "LazySubmodule_access example_host example_active_proxy ''Camera'' example_active_world =
        (forwarded example_host example_active_proxy ''Camera'' example_active_world,
         example_active_proxy, example_active_world)"
    using inst h3 h4 by blast
  show ?thesis
    using h1 h2 h3 h4 h5 own fwd inst
    by (simp add: example_defs proxy_defs own_attribute_def forwarded_def)
qed

text \<open>
  The claim as first stated, that every attribute access on an active proxy is forwarded
  to the submodule, fails for the attribute \<^verbatim>\<open>name\<close>: the submodule has one, and the
  proxy answers with its own.
\<close>

theorem active_proxy_answers_own_name:
  "activated example_active_proxy
   \<and> forwarded example_host example_active_proxy ''name'' example_active_world =
        Inr (Obj (Some 60))
   \<and> LazySubmodule_access example_host example_active_proxy ''name'' example_active_world =
        (Inr (Str ''V1FF''), example_active_proxy, example_active_world)
   \<and> fst (LazySubmodule_access example_host example_active_proxy ''name'' example_active_world)
        \<noteq> forwarded example_host example_active_proxy ''name'' example_active_world"
  by (simp add: LazySubmodule_access_def own_attribute_def forwarded_def example_defs proxy_defs)

subsection \<open>Construction is lazy\<close>

text \<open>
  Claim C7.  The constructor of \<^verbatim>\<open>_LazySubmodule\<close> only records the name and sets
  \<^verbatim>\<open>_submodule\<close> to \<^verbatim>\<open>None\<close> and \<^verbatim>\<open>_activated\<close> to \<^verbatim>\<open>False\<close>.  Initialising the module,
  which builds the proxies V1FF, V8FF and RGBFF, leaves \<^verbatim>\<open>_extension_module\<close> at \<^verbatim>\<open>None\<close>,
  logs no load and no activation, and touches neither the native state nor the registry.
  The load and the activation come with the first use: when the first use of a new proxy
  succeeds, the handle is cached, the proxy is active, and the log has grown by the load
  (if no handle was cached before) followed by the activation.
\<close>

theorem construction_is_lazy:
  "LazySubmodule_init nm = \<lparr>name = nm, submodule = None, activated = False\<rparr>
   \<and> fst (virapy_init h w) =
        \<lparr>V1FF = \<lparr>name = ''V1FF'', submodule = None, activated = False\<rparr>,
         V8FF = \<lparr>name = ''V8FF'', submodule = None, activated = False\<rparr>,
         RGBFF = \<lparr>name = ''RGBFF'', submodule = None, activated = False\<rparr>\<rparr>
   \<and> extension_module (snd (virapy_init h w)) = None
   \<and> events (snd (virapy_init h w)) = events w
   \<and> native (snd (virapy_init h w)) = native w
   \<and> sys_modules (snd (virapy_init h w)) = sys_modules w
   \<and> (ensure_activated h (LazySubmodule_init nm) v = (Inr u, p', v')
        \<longrightarrow> activated p' \<and> extension_module v' \<noteq> None
          \<and> events v' =
              events v
              @ (if extension_module v = None
                 then [Located (extension_file h), NativeLoad (extension_file h)] else [])
              @ [Activation nm])"
proof -
  have init: "fst (virapy_init h w) =
        \<lparr>V1FF = \<lparr>name = ''V1FF'', submodule = None, activated = False\<rparr>,
         V8FF = \<lparr>name = ''V8FF'', submodule = None, activated = False\<rparr>,
         RGBFF = \<lparr>name = ''RGBFF'', submodule = None, activated = False\<rparr>\<rparr>
   \<and> extension_module (snd (virapy_init h w)) = None
   \<and> events (snd (virapy_init h w)) = events w
   \<and> native (snd (virapy_init h w)) = native w
   \<and> sys_modules (snd (virapy_init h w)) = sys_modules w"
    by (simp add: virapy_init_def register_dll_path_def LazySubmodule_init_def Let_def)
  have use: "activated p' \<and> extension_module v' \<noteq> None
          \<and> events v' =
              events v
              @ (if extension_module v = None
                 then [Located (extension_file h), NativeLoad (extension_file h)] else [])
              @ [Activation nm]"
    if run: "ensure_activated h (LazySubmodule_init nm) v = (Inr u, p', v')"
  proof -
    have dormant: "\<not> activated (LazySubmodule_init nm)"
      by (simp add: LazySubmodule_init_def)
    obtain ext v1 n where load: "load_extension h v = (Inr ext, v1)"
      and v': "v' = (log_event (Activation (name (LazySubmodule_init nm))) v1)\<lparr>native := n\<rparr>"
      using ensure_activated_first_use [OF dormant run] by blast
    have cache: "extension_module v1 = Some ext"
      using load by (rule load_extension_success)
    have ev: "events v1 = events v @ (if extension_module v = None
                 then [Located (extension_file h), NativeLoad (extension_file h)] else [])"
    proof (cases "extension_module v")
      case None
      then show ?thesis using load_extension_first_success [OF None load] by simp
    next
      case (Some m)
      then show ?thesis using load by (simp add: load_extension_cached)
    qed
    show ?thesis
      using ensure_activated_success [OF run] cache ev
      by (simp add: v' log_event_def LazySubmodule_init_def)
  qed
  show ?thesis
    using init use by (simp add: LazySubmodule_init_def)
qed

theorem construction_is_lazy_witness:
  "fst (virapy_init example_host example_world) =
        \<lparr>V1FF = \<lparr>name = ''V1FF'', submodule = None, activated = False\<rparr>,
         V8FF = \<lparr>name = ''V8FF'', submodule = None, activated = False\<rparr>,
         RGBFF = \<lparr>name = ''RGBFF'', submodule = None, activated = False\<rparr>\<rparr>
   \<and> snd (virapy_init example_host example_world) = example_world
   \<and> ensure_activated example_host (V1FF (fst (virapy_init example_host example_world)))
        (snd (virapy_init example_host example_world)) =
        (Inr (), example_active_proxy, example_active_world)
   \<and> activated example_active_proxy
   \<and> extension_module example_active_world = Some 100
   \<and> events example_active_world =
        [Located ''/site/virapy/virapy.so'', NativeLoad ''/site/virapy/virapy.so'',
         Activation ''V1FF'']"
proof -
  have run: "ensure_activated example_host (LazySubmodule_init ''V1FF'') example_world =
        (Inr (), example_active_proxy, example_active_world)"
    by (simp add: example_defs proxy_defs)
  note inst = construction_is_lazy
    [where h = example_host and w = example_world and nm = "''V1FF''" and v = example_world
       and u = "()" and p' = example_active_proxy and v' = example_active_world]
  have after: "activated example_active_proxy \<and> extension_module example_active_world \<noteq> None"
    using inst run by blast
  show ?thesis
    using inst run after
    by (simp add: example_defs proxy_defs virapy_init_def register_dll_path_def)
qed

subsection \<open>A missing submodule\<close>

text \<open>
  Claim C10.  When the extension loads but has no attribute of the proxy's name, so that
  the lookup raises an \<^verbatim>\<open>AttributeError\<close>, the first use of the proxy raises that very
  \<^verbatim>\<open>AttributeError\<close> (it is not turned into an \<^verbatim>\<open>ImportError\<close>), no \<^verbatim>\<open>_activate()\<close> call has
  been logged, and the flag \<^verbatim>\<open>_activated\<close> is still false.  When the lookup succeeds but
  \<^verbatim>\<open>_activate()\<close> raises, the field \<^verbatim>\<open>_submodule\<close> holds the object that was found although
  the proxy is not active.
\<close>

theorem missing_attribute_precedes_activation:
  "(\<not> activated p \<and> load_extension h w = (Inr ext, w1)
      \<and> obj_getattr h (Some ext) (name p) (native w1) = Inl (Exn ''AttributeError'' msg)
      \<longrightarrow> LazySubmodule_getattr h p attr w = (Inl (Exn ''AttributeError'' msg), p, w1)
        \<and> filter is_activation (events w1) = filter is_activation (events w)
        \<and> \<not> activated (fst (snd (LazySubmodule_getattr h p attr w))))
   \<and> (\<not> activated p \<and> load_extension h w = (Inr ext, w1)
      \<and> obj_getattr h (Some ext) (name p) (native w1) = Inr sub
      \<and> call_activate h sub (native w1) = (Inl e, n)
      \<longrightarrow> submodule (fst (snd (LazySubmodule_getattr h p attr w))) = sub
        \<and> \<not> activated (fst (snd (LazySubmodule_getattr h p attr w))))"
proof -
  have noattr: "LazySubmodule_getattr h p attr w = (Inl (Exn ''AttributeError'' msg), p, w1)
        \<and> filter is_activation (events w1) = filter is_activation (events w)
        \<and> \<not> activated (fst (snd (LazySubmodule_getattr h p attr w)))"
    if "\<not> activated p" "load_extension h w = (Inr ext, w1)"
       "obj_getattr h (Some ext) (name p) (native w1) = Inl (Exn ''AttributeError'' msg)"
    using that load_extension_no_activation [OF that(2)]
    by (simp add: LazySubmodule_getattr_def ensure_activated_def)
  have failed: "submodule (fst (snd (LazySubmodule_getattr h p attr w))) = sub
        \<and> \<not> activated (fst (snd (LazySubmodule_getattr h p attr w)))"
    if "\<not> activated p" "load_extension h w = (Inr ext, w1)"
       "obj_getattr h (Some ext) (name p) (native w1) = Inr sub"
       "call_activate h sub (native w1) = (Inl e, n)"
    using that
    by (simp add: LazySubmodule_getattr_def ensure_activated_def Let_def log_event_def)
  show ?thesis
    using noattr failed by blast
qed

theorem missing_attribute_precedes_activation_witness:
  "\<not> activated (LazySubmodule_init ''V16FF'')
   \<and> load_extension example_host example_world = (Inr 100, example_loaded_world)
   \<and> obj_getattr example_host (Some 100) (name (LazySubmodule_init ''V16FF''))
        (native example_loaded_world) = Inl (Exn ''AttributeError'' ''no attribute V16FF'')
   \<and> LazySubmodule_getattr example_host (LazySubmodule_init ''V16FF'') ''Camera'' example_world =
        (Inl (Exn ''AttributeError'' ''no attribute V16FF''),
         \<lparr>name = ''V16FF'', submodule = None, activated = False\<rparr>, example_loaded_world)
   \<and> filter is_activation (events example_loaded_world) = []
   \<and> \<not> activated (LazySubmodule_init ''V1FF'')
   \<and> load_extension example_host example_busy_world = (Inr 100, example_busy_world)
   \<and> obj_getattr example_host (Some 100) (name (LazySubmodule_init ''V1FF''))
        (native example_busy_world) = Inr (Some 1)
   \<and> call_activate example_host (Some 1) (native example_busy_world) =
        (Inl (Exn ''RuntimeError'' ''another submodule is already active''), Some 2)
   \<and> fst (snd (LazySubmodule_getattr example_host (LazySubmodule_init ''V1FF'') ''Camera''
        example_busy_world)) = \<lparr>name = ''V1FF'', submodule = Some 1, activated = False\<rparr>"
proof -
  have a: "\<not> activated (LazySubmodule_init ''V16FF'')
     \<and> load_extension example_host example_world = (Inr 100, example_loaded_world)
     \<and> obj_getattr example_host (Some 100) (name (LazySubmodule_init ''V16FF''))
        (native example_loaded_world) = Inl (Exn ''AttributeError'' ''no attribute V16FF'')"
    by (simp add: example_defs proxy_defs)
  have b: "\<not> activated (LazySubmodule_init ''V1FF'')
     \<and> load_extension example_host example_busy_world = (Inr 100, example_busy_world)
     \<and> obj_getattr example_host (Some 100) (name (LazySubmodule_init ''V1FF''))
        (native example_busy_world) = Inr (Some 1)
     \<and> call_activate example_host (Some 1) (native example_busy_world) =
        (Inl (Exn ''RuntimeError'' ''another submodule is already active''), Some 2)"
    by (simp add: example_defs proxy_defs)
  note noattr = missing_attribute_precedes_activation
    [where h = example_host and p = "LazySubmodule_init ''V16FF''" and w = example_world
       and ext = 100 and ?w1.0 = example_loaded_world and msg = "''no attribute V16FF''"
       and attr = "''Camera''"]
  note failed = missing_attribute_precedes_activation
    [where h = example_host and p = "LazySubmodule_init ''V1FF''" and w = example_busy_world
       and ext = 100 and ?w1.0 = example_busy_world and sub = "Some 1"
       and e = "Exn ''RuntimeError'' ''another submodule is already active''" and n = "Some 2"
       and attr = "''Camera''"]
  have r1: "LazySubmodule_getattr example_host (LazySubmodule_init ''V16FF'') ''Camera'' example_world =
        (Inl (Exn ''AttributeError'' ''no attribute V16FF''), LazySubmodule_init ''V16FF'',
         example_loaded_world)"
    using noattr a by blast
  have r2: "submodule (fst (snd (LazySubmodule_getattr example_host (LazySubmodule_init ''V1FF'')
        ''Camera'' example_busy_world))) = Some 1"
    using failed b by blast
  show ?thesis
    using a b r1 r2 by (simp add: example_defs proxy_defs)
qed

section \<open>Platform resolution and the library search path\<close>

text \<open>
  Claim C8.  The extension file is \<^verbatim>\<open>virapy.pyd\<close> joined to the package directory when
  \<^verbatim>\<open>platform.system()\<close> is \<^verbatim>\<open>Windows\<close>, and \<^verbatim>\<open>virapy.so\<close> joined to it otherwise; it depends on
  nothing but the platform, the package directory and \<^verbatim>\<open>os.path.join\<close>.  Initialising
  the module on Windows registers the package directory, with \<^verbatim>\<open>os.add_dll_directory\<close>
  when that exists and otherwise at the front of \<^verbatim>\<open>PATH\<close>; on any other platform neither
  is changed.  The initialisation logs nothing and leaves the cache empty, so the
  registration precedes every load attempt.
\<close>

theorem platform_resolution:
  "(platform_system h = ''Windows''
      \<longrightarrow> extension_file h = path_join h (package_dir h) ''virapy.pyd'')
   \<and> (platform_system h \<noteq> ''Windows''
      \<longrightarrow> extension_file h = path_join h (package_dir h) ''virapy.so'')
   \<and> (platform_system h = platform_system h' \<and> package_dir h = package_dir h'
        \<and> path_join h = path_join h'
      \<longrightarrow> extension_file h = extension_file h')
   \<and> (platform_system h = ''Windows'' \<and> has_add_dll_directory h
      \<longrightarrow> dll_directories (snd (virapy_init h w)) = dll_directories w @ [package_dir h]
        \<and> environ (snd (virapy_init h w)) = environ w)
   \<and> (platform_system h = ''Windows'' \<and> \<not> has_add_dll_directory h
      \<longrightarrow> environ (snd (virapy_init h w)) =
            (environ w)(''PATH'' \<mapsto> package_dir h @ pathsep h
               @ (case environ w ''PATH'' of None \<Rightarrow> '''' | Some v \<Rightarrow> v))
        \<and> dll_directories (snd (virapy_init h w)) = dll_directories w)
   \<and> (platform_system h \<noteq> ''Windows''
      \<longrightarrow> environ (snd (virapy_init h w)) = environ w
        \<and> dll_directories (snd (virapy_init h w)) = dll_directories w)
   \<and> events (snd (virapy_init h w)) = events w
   \<and> extension_module (snd (virapy_init h w)) = None"
  by (simp add: extension_file_def virapy_init_def register_dll_path_def Let_def)

theorem platform_resolution_witness:
  "platform_system example_windows_host = ''Windows''
   \<and> has_add_dll_directory example_windows_host
   \<and> extension_file example_windows_host = ''C:/site/virapy/virapy.pyd''
   \<and> dll_directories (snd (virapy_init example_windows_host example_world)) = [''C:/site/virapy'']
   \<and> platform_system example_old_windows_host = ''Windows''
   \<and> \<not> has_add_dll_directory example_old_windows_host
   \<and> environ (snd (virapy_init example_old_windows_host example_world)) ''PATH'' =
        Some ''C:/site/virapy;/usr/bin''
   \<and> environ (snd (virapy_init example_old_windows_host (example_world\<lparr>environ := Map.empty\<rparr>)))
        ''PATH'' = Some ''C:/site/virapy;''
   \<and> platform_system example_host \<noteq> ''Windows''
   \<and> extension_file example_host = ''/site/virapy/virapy.so''
   \<and> extension_file (example_host\<lparr>platform_system := ''Darwin''\<rparr>) = ''/site/virapy/virapy.so''
   \<and> environ (snd (virapy_init example_host example_world)) ''PATH'' = Some ''/usr/bin''
   \<and> dll_directories (snd (virapy_init example_host example_world)) = []
   \<and> events (snd (virapy_init example_windows_host example_world)) = []"
  using platform_resolution [of example_windows_host example_windows_host example_world]
    platform_resolution [of example_old_windows_host example_old_windows_host example_world]
    platform_resolution [of example_old_windows_host example_old_windows_host
       "example_world\<lparr>environ := Map.empty\<rparr>"]
    platform_resolution [of example_host "example_host\<lparr>platform_system := ''Darwin''\<rparr>" example_world]
  by (simp add: example_defs host_defs)

end
